theory Spec2Isabelle
  imports Main
begin

section \<open>Values of the host language\<close>

text \<open>
  The client is written in JavaScript. Values are modelled by the datatype below:
  numbers are integers, a \<open>Date\<close> is its time value in milliseconds since the
  epoch (valid dates only), a string is the list of its code units (those below 256),
  and a missing property reads as \<open>JUndefined\<close>.
\<close>

datatype jsval =
    JUndefined
  | JNull
  | JBool bool
  | JNum int
  | JStr string
  | JDate int
  | JArr "jsval list"
  | JObj "(string \<times> jsval) list"

datatype errkind = Error | TypeError | AuthError | PermissionError | OtherError string

datatype jserror = JsError (kind: errkind) (message: string)

text \<open>
  A promise settles with a value or with a rejection. A rejection that happens
  before any input or output has completed (\<open>RejectedNow\<close>) is told apart from one
  that follows a response of the portal (\<open>RejectedLater\<close>): \<open>Promise.all\<close> rejects
  with the rejection that happens first.
\<close>

datatype 'a settled = Fulfilled 'a | RejectedNow jserror | RejectedLater jserror

text \<open>A call either throws synchronously or returns a promise.\<close>

datatype 'a outcome = Threw jserror | Returned "'a settled"

definition nullish :: "jsval \<Rightarrow> bool" where
  \<comment> \<open>\<open>v == null\<close>\<close>
  "nullish v = (v = JUndefined \<or> v = JNull)"

fun truthy :: "jsval \<Rightarrow> bool" where
  "truthy JUndefined = False"
| "truthy JNull = False"
| "truthy (JBool b) = b"
| "truthy (JNum n) = (n \<noteq> 0)"
| "truthy (JStr s) = (s \<noteq> [])"
| "truthy (JDate t) = True"
| "truthy (JArr xs) = True"
| "truthy (JObj kvs) = True"

definition js_or :: "jsval \<Rightarrow> jsval \<Rightarrow> jsval" where
  \<comment> \<open>\<open>a || b\<close>\<close>
  "js_or a b = (if truthy a then a else b)"

definition type_error :: "string \<Rightarrow> jserror" where
  "type_error what = JsError TypeError what"

fun get_prop :: "jsval \<Rightarrow> string \<Rightarrow> jserror + jsval" where
  \<comment> \<open>\<open>v.key\<close> on a value decoded from JSON, for the keys the class reads (\<open>Items\<close>,
      \<open>Url\<close>, \<open>Persoon\<close>, \<open>Id\<close>, \<open>Groep\<close>, \<open>Privileges\<close>), none of which a string, an
      array or every object has of its own\<close>
  "get_prop JUndefined key = Inl (type_error ''Cannot read properties of undefined'')"
| "get_prop JNull key = Inl (type_error ''Cannot read properties of null'')"
| "get_prop (JObj kvs) key = Inr (case map_of kvs key of None \<Rightarrow> JUndefined | Some v \<Rightarrow> v)"
| "get_prop v key = Inr JUndefined"

fun decimal :: "nat \<Rightarrow> string" where
  \<comment> \<open>the decimal digits of an index, as a property name\<close>
  "decimal n =
     (if n < 10 then [char_of (48 + n)] else decimal (n div 10) @ [char_of (48 + n mod 10)])"

declare decimal.simps [simp del]

fun get_index :: "jsval \<Rightarrow> nat \<Rightarrow> jserror + jsval" where
  \<comment> \<open>\<open>v[i]\<close> on a value decoded from JSON: an element of an array, a character of a
      string, the property of an object whose name is the index\<close>
  "get_index JUndefined i = Inl (type_error ''Cannot read properties of undefined'')"
| "get_index JNull i = Inl (type_error ''Cannot read properties of null'')"
| "get_index (JArr xs) i = Inr (if i < length xs then xs ! i else JUndefined)"
| "get_index (JStr s) i = Inr (if i < length s then JStr [s ! i] else JUndefined)"
| "get_index (JObj kvs) i =
     Inr (case map_of kvs (decimal i) of None \<Rightarrow> JUndefined | Some v \<Rightarrow> v)"
| "get_index v i = Inr JUndefined"

fun map_result :: "('a \<Rightarrow> jserror + 'b) \<Rightarrow> 'a list \<Rightarrow> jserror + 'b list" where
  \<comment> \<open>\<open>xs.map(f)\<close> where \<open>f\<close> may throw: the first throw ends the map\<close>
  "map_result f [] = Inr []"
| "map_result f (x # xs) =
     (case f x of
        Inl e \<Rightarrow> Inl e
      | Inr y \<Rightarrow> (case map_result f xs of Inl e \<Rightarrow> Inl e | Inr ys \<Rightarrow> Inr (y # ys)))"

definition items_map :: "(jsval \<Rightarrow> jserror + 'a) \<Rightarrow> jsval \<Rightarrow> jserror + 'a list" where
  \<comment> \<open>\<open>res.Items.map(x => new C(this, x))\<close>\<close>
  "items_map mk res =
     (case get_prop res ''Items'' of
        Inl e \<Rightarrow> Inl e
      | Inr (JArr xs) \<Rightarrow> map_result mk xs
      | Inr JUndefined \<Rightarrow> Inl (type_error ''Cannot read properties of undefined'')
      | Inr JNull \<Rightarrow> Inl (type_error ''Cannot read properties of null'')
      | Inr _ \<Rightarrow> Inl (type_error ''res.Items.map is not a function''))"

subsection \<open>Strings\<close>

definition is_space :: "char \<Rightarrow> bool" where
  \<comment> \<open>the white space and line terminators that \<open>String.prototype.trim\<close> strips,
      among the characters of the model\<close>
  "is_space ch = (ch \<in> set [CHR 0x09, CHR 0x0A, CHR 0x0B, CHR 0x0C, CHR 0x0D, CHR 0x20, CHR 0xA0])"

definition trim :: "string \<Rightarrow> string" where
  "trim s = rev (dropWhile is_space (rev (dropWhile is_space s)))"

fun join :: "string \<Rightarrow> string list \<Rightarrow> string" where
  "join sep [] = []"
| "join sep [x] = x"
| "join sep (x # y # ys) = x @ sep @ join sep (y # ys)"

fun escape :: "string \<Rightarrow> string" where
  \<comment> \<open>lodash \<open>_.escape\<close>\<close>
  "escape [] = []"
| "escape (ch # cs) =
     (if ch = CHR 0x26 then ''&amp;''
      else if ch = CHR 0x3C then ''&lt;''
      else if ch = CHR 0x3E then ''&gt;''
      else if ch = CHR 0x22 then ''&quot;''
      else if ch = CHR 0x27 then ''&#39;''
      else [ch]) @ escape cs"

fun collapse_spaces :: "string \<Rightarrow> string" where
  \<comment> \<open>\<open>s.replace(/ +/g, '+')\<close>: every maximal run of spaces becomes one plus sign\<close>
  "collapse_spaces [] = []"
| "collapse_spaces [ch] = (if ch = CHR 0x20 then ''+'' else [ch])"
| "collapse_spaces (ch # d # cs) =
     (if ch = CHR 0x20 then
        (if d = CHR 0x20 then collapse_spaces (d # cs) else CHR ''+'' # collapse_spaces (d # cs))
      else ch # collapse_spaces (d # cs))"

definition str_or_undefined :: "string option \<Rightarrow> string" where
  \<comment> \<open>a string property in a template literal; an unset one prints as \<open>undefined\<close>\<close>
  "str_or_undefined s = (case s of None \<Rightarrow> ''undefined'' | Some x \<Rightarrow> x)"

section \<open>Model objects\<close>

datatype person = Person (person_raw: jsval) (filled: bool)

datatype appointment =
  Appointment (a_id: string) (a_start: int) (a_teachers: "person list")
    (a_absenceInfo: "absenceInfo option") (a_url: "string option")
and absenceInfo =
  AbsenceInfo (i_appointment: appointment) (i_raw: jsval)

datatype course = Course (c_start: int) (c_raw: jsval)

datatype messageFolder = MessageFolder (f_raw: jsval)

type_synonym privileges = "(string \<times> string list) list"

section \<open>The transport and the client\<close>

datatype http_method = GET | POST | DELETE

record request =
  r_method :: http_method
  r_url :: string
  r_cookie :: "string option"
  r_body :: jsval

record response =
  set_cookie :: "string option"
  json :: "jserror + jsval"

record login_options =
  username :: "string option"
  password :: "string option"
  sessionId :: "string option"
  keepLoggedIn :: bool

text \<open>
  The state of a \<open>Magister\<close> object. \<open>http_log\<close> is a ghost field: the requests the
  \<open>Http\<close> object has issued so far, oldest first.
\<close>

record client =
  m_options :: login_options
  school_url :: string
  http_cookie :: "string option"
  http_log :: "request list"
  profileInfo :: "jsval option"
  m_privileges :: "privileges option"
  personUrl :: "string option"
  pupilUrl :: "string option"

text \<open>
  What the class takes from outside \<open>magister.js\<close>: the portal behind the transport,
  the constructors of the model classes, the helpers of \<open>util\<close>, the string
  conversions of the language, and the order in which concurrent requests fail.
  \<open>urlDateConvert_undefined\<close> is what \<open>util.urlDateConvert\<close> does on \<open>undefined\<close>: it
  throws or it returns a string. \<open>inherited name\<close> is the string of the property that
  every object inherits under that name (\<open>constructor\<close>, \<open>toString\<close> and the like), if
  there is one.
\<close>

record host =
  send :: "request list \<Rightarrow> request \<Rightarrow> jserror + response"
  toString :: "jsval \<Rightarrow> string"
  toISOString :: "int \<Rightarrow> string"
  inherited :: "string \<Rightarrow> string option"
  urlDateConvert :: "int \<Rightarrow> string"
  urlDateConvert_undefined :: "jserror + string"
  date :: "int \<Rightarrow> int"
  mkAppointment :: "jsval \<Rightarrow> jserror + appointment"
  mkAbsenceInfo :: "jsval \<Rightarrow> jserror + absenceInfo"
  mkCourse :: "jsval \<Rightarrow> jserror + course"
  mkMessageFolder :: "jsval \<Rightarrow> jserror + messageFolder"
  mkPerson :: "jsval \<Rightarrow> jserror + person"
  mkPrivileges :: "jsval \<Rightarrow> jserror + privileges"
  getFilled :: "client \<Rightarrow> person \<Rightarrow> string \<Rightarrow> (jserror + person) \<times> client"
  race :: "jserror list \<Rightarrow> nat"

definition http_request ::
  "host \<Rightarrow> client \<Rightarrow> http_method \<Rightarrow> string \<Rightarrow> jsval \<Rightarrow> (jserror + response) \<times> client" where
  "http_request h c m u b =
     (let req = \<lparr>r_method = m, r_url = u, r_cookie = http_cookie c, r_body = b\<rparr>
      in (send h (http_log c) req, c\<lparr>http_log := http_log c @ [req]\<rparr>))"

definition http_get :: "host \<Rightarrow> client \<Rightarrow> string \<Rightarrow> (jserror + response) \<times> client" where
  "http_get h c u = http_request h c GET u JUndefined"

definition http_post :: "host \<Rightarrow> client \<Rightarrow> string \<Rightarrow> jsval \<Rightarrow> (jserror + response) \<times> client" where
  "http_post h c u b = http_request h c POST u b"

definition http_delete :: "host \<Rightarrow> client \<Rightarrow> string \<Rightarrow> (jserror + response) \<times> client" where
  "http_delete h c u = http_request h c DELETE u JUndefined"

definition res_json :: "jserror + response \<Rightarrow> jserror + jsval" where
  \<comment> \<open>\<open>.then(res => res.json())\<close> after a request\<close>
  "res_json r = (case r of Inl e \<Rightarrow> Inl e | Inr res \<Rightarrow> json res)"

definition later :: "jserror + 'a \<Rightarrow> 'a settled" where
  \<comment> \<open>the promise of a computation that ran after a response arrived\<close>
  "later r = (case r of Inl e \<Rightarrow> RejectedLater e | Inr v \<Rightarrow> Fulfilled v)"

definition pick_rejection :: "host \<Rightarrow> jserror list \<Rightarrow> jserror" where
  \<comment> \<open>of several rejections that follow responses, the one that happens first\<close>
  "pick_rejection h es = es ! (race h es mod length es)"

definition promise_all2 :: "host \<Rightarrow> 'a settled \<Rightarrow> 'b settled \<Rightarrow> ('a \<times> 'b) settled" where
  \<comment> \<open>\<open>Promise.all([p, q])\<close>\<close>
  "promise_all2 h p q =
     (case p of
        RejectedNow e \<Rightarrow> RejectedNow e
      | RejectedLater e1 \<Rightarrow>
          (case q of
             RejectedNow e \<Rightarrow> RejectedNow e
           | RejectedLater e2 \<Rightarrow> RejectedLater (pick_rejection h [e1, e2])
           | Fulfilled b \<Rightarrow> RejectedLater e1)
      | Fulfilled a \<Rightarrow>
          (case q of
             RejectedNow e \<Rightarrow> RejectedNow e
           | RejectedLater e \<Rightarrow> RejectedLater e
           | Fulfilled b \<Rightarrow> Fulfilled (a, b)))"

section \<open>The privilege check\<close>

definition to_lower :: "char \<Rightarrow> char" where
  "to_lower ch =
     (let n = (of_char ch :: nat) in if 65 \<le> n \<and> n \<le> 90 then char_of (n + 32) else ch)"

text \<open>
  Modelled from the spec: the class \<open>Privileges\<close> is not part of \<open>magister.js\<close>.
  The privilege set maps a resource name to its granted actions; \<open>needs\<close> fails with a
  \<open>PermissionError\<close> unless the resource grants the action, and the resource name is
  looked up without regard to case.
\<close>

definition can :: "privileges \<Rightarrow> string \<Rightarrow> string \<Rightarrow> bool" where
  \<comment> \<open>Modelled from the spec: \<open>Privileges\<close> is missing; a resource, found without regard to
      the case of its name, grants an action when the action is among its granted ones\<close>
  "can ps thing action =
     list_ex (\<lambda>(name, actions). map to_lower name = map to_lower thing \<and> action \<in> set actions) ps"

definition needs :: "privileges \<Rightarrow> string \<Rightarrow> string \<Rightarrow> jserror + unit" where
  \<comment> \<open>Modelled from the spec: \<open>Privileges.needs\<close> is missing; it fails with a
      \<open>PermissionError\<close> unless the resource grants the action\<close>
  "needs ps thing action =
     (if can ps thing action then Inr ()
      else Inl (JsError PermissionError
             (''Account is not privileged to '' @ action @ '' '' @ thing)))"

section \<open>createAppointment\<close>

record create_options =
  o_description :: jsval
  o_start :: jsval
  o_end :: jsval
  o_fullDay :: jsval
  o_location :: jsval
  o_content :: jsval
  o_type :: jsval

definition required :: "string list" where
  "required = [''description'', ''start'', ''end'']"

definition option_field :: "create_options \<Rightarrow> string \<Rightarrow> jsval" where
  \<comment> \<open>\<open>options[key]\<close>\<close>
  "option_field options key =
     (if key = ''description'' then o_description options
      else if key = ''start'' then o_start options
      else if key = ''end'' then o_end options
      else if key = ''fullDay'' then o_fullDay options
      else if key = ''location'' then o_location options
      else if key = ''content'' then o_content options
      else if key = ''type'' then o_type options
      else JUndefined)"

definition validation_error :: jserror where
  "validation_error =
     JsError Error
       (''Not all required fields for `options` are given, required are: [ ''
        @ join '', '' required @ '' ]'')"

definition date_plus_number :: "host \<Rightarrow> int \<Rightarrow> int \<Rightarrow> jsval" where
  \<comment> \<open>\<open>new Date(t) + n\<close>: a \<open>Date\<close> operand of \<open>+\<close> is converted to its string, so
      the sum is the concatenation of the two strings\<close>
  "date_plus_number h t n = JStr (toString h (JDate t) @ toString h (JNum n))"

definition full_day :: "host \<Rightarrow> create_options \<Rightarrow> jserror + create_options" where
  \<comment> \<open>the two assignments under \<open>if (options.fullDay)\<close>. \<open>util.date\<close> is missing: on a
      \<open>Date\<close> it is the date-only value that the host gives, on any other value it is
      taken to throw, as a reading of the calendar fields of a value without them does\<close>
  "full_day h options =
     (if truthy (o_fullDay options) then
        (case o_start options of
           JDate t \<Rightarrow>
             (let options1 = options\<lparr>o_start := JDate (date h t)\<rparr>
              in (case o_start options1 of
                    JDate t1 \<Rightarrow>
                      Inr (options1\<lparr>o_end := date_plus_number h t1 (1000 * 60 * 60 * 24)\<rparr>)
                  | _ \<Rightarrow> Inl (type_error ''options.start.getTime is not a function'')))
         | _ \<Rightarrow> Inl (type_error ''date.getFullYear is not a function''))
      else Inr options)"

definition toJSON :: "host \<Rightarrow> jsval \<Rightarrow> jserror + jsval" where
  \<comment> \<open>\<open>v.toJSON()\<close>: of the values of the model only a \<open>Date\<close> has the method\<close>
  "toJSON h v =
     (case v of
        JDate t \<Rightarrow> Inr (JStr (toISOString h t))
      | JUndefined \<Rightarrow> Inl (type_error ''Cannot read properties of undefined'')
      | JNull \<Rightarrow> Inl (type_error ''Cannot read properties of null'')
      | _ \<Rightarrow> Inl (type_error ''toJSON is not a function''))"

definition inhoud :: "jsval \<Rightarrow> jserror + jsval" where
  \<comment> \<open>the value of the field \<open>Inhoud\<close>\<close>
  "inhoud v =
     (case js_or v (JStr '''') of
        JStr s \<Rightarrow>
          (let content = trim s in Inr (if length content > 0 then JStr (escape content) else JNull))
      | _ \<Rightarrow> Inl (type_error ''trim is not a function''))"

definition build_payload :: "host \<Rightarrow> create_options \<Rightarrow> jserror + jsval" where
  "build_payload h options =
     (case toJSON h (o_start options) of
        Inl e \<Rightarrow> Inl e
      | Inr start \<Rightarrow>
     (case toJSON h (o_end options) of
        Inl e \<Rightarrow> Inl e
      | Inr einde \<Rightarrow>
     (case inhoud (o_content options) of
        Inl e \<Rightarrow> Inl e
      | Inr content \<Rightarrow>
          Inr (JObj
            [(''Omschrijving'', o_description options),
             (''Start'', start),
             (''Einde'', einde),
             (''Lokatie'', js_or (o_location options) (JStr '''')),
             (''Inhoud'', content),
             (''Type'', js_or (o_type options) (JNum 1)),
             (''DuurtHeleDag'', js_or (o_fullDay options) (JBool False)),
             (''InfoType'', JNum 0),
             (''WeergaveType'', JNum 1),
             (''Status'', JNum 2),
             (''HeeftBijlagen'', JBool False),
             (''Bijlagen'', JNull),
             (''LesuurVan'', JNull),
             (''LesuurTotMet'', JNull),
             (''Aantekening'', JNull),
             (''Afgerond'', JBool False),
             (''Vakken'', JNull),
             (''Docenten'', JNull),
             (''Links'', JNull),
             (''Id'', JNum 0),
             (''Lokalen'', JNull),
             (''Groepen'', JNull),
             (''OpdrachtId'', JNum 0)]))))"

definition set_url :: "string \<Rightarrow> appointment \<Rightarrow> appointment" where
  "set_url u a = Appointment (a_id a) (a_start a) (a_teachers a) (a_absenceInfo a) (Some u)"

definition created :: "host \<Rightarrow> client \<Rightarrow> jsval \<Rightarrow> jsval \<Rightarrow> jserror + appointment" where
  \<comment> \<open>the last \<open>then\<close> of \<open>createAppointment\<close>\<close>
  "created h c payload res =
     (case mkAppointment h payload of
        Inl e \<Rightarrow> Inl e
      | Inr a \<Rightarrow>
          (case get_prop res ''Url'' of
             Inl e \<Rightarrow> Inl e
           | Inr u \<Rightarrow> Inr (set_url (school_url c @ toString h u) a)))"

text \<open>
  \<open>createAppointment\<close> returns its outcome, the caller's \<open>options\<close> object as the call
  leaves it, and the client.
\<close>

definition createAppointment ::
  "host \<Rightarrow> client \<Rightarrow> create_options \<Rightarrow> appointment outcome \<times> create_options \<times> client" where
  "createAppointment h c options =
     (if list_ex (\<lambda>key. nullish (option_field options key)) required then
        (Returned (RejectedNow validation_error), options, c)
      else
        (case full_day h options of
           Inl e \<Rightarrow> (Threw e, options, c)
         | Inr options1 \<Rightarrow>
        (case build_payload h options1 of
           Inl e \<Rightarrow> (Threw e, options1, c)
         | Inr payload \<Rightarrow>
        (case m_privileges c of
           None \<Rightarrow> (Threw (type_error ''Cannot read properties of undefined''), options1, c)
         | Some ps \<Rightarrow>
        (case needs ps ''afspraken'' ''create'' of
           Inl e \<Rightarrow> (Returned (RejectedNow e), options1, c)
         | Inr _ \<Rightarrow>
             (let (r, c1) = http_post h c (str_or_undefined (personUrl c) @ ''/afspraken'') payload
              in (Returned (later (case res_json r of
                                     Inl e \<Rightarrow> Inl e
                                   | Inr res \<Rightarrow> created h c1 payload res)),
                  options1, c1)))))))"

section \<open>The read operations\<close>

definition read_items ::
  "host \<Rightarrow> client \<Rightarrow> privileges \<Rightarrow> string \<Rightarrow> string \<Rightarrow> (jsval \<Rightarrow> jserror + 'a)
     \<Rightarrow> 'a list settled \<times> client" where
  \<comment> \<open>the chain every read operation is built on:
      \<open>needs(thing, 'read').then(() => http.get(url)).then(res => res.json())
        .then(res => res.Items.map(x => new C(this, x)))\<close>\<close>
  "read_items h c ps thing u mk =
     (case needs ps thing ''read'' of
        Inl e \<Rightarrow> (RejectedNow e, c)
      | Inr _ \<Rightarrow>
          (let (r, c1) = http_get h c u
           in (later (case res_json r of Inl e \<Rightarrow> Inl e | Inr res \<Rightarrow> items_map mk res), c1)))"

definition then_map :: "('a \<Rightarrow> 'b) \<Rightarrow> 'a settled \<Rightarrow> 'b settled" where
  \<comment> \<open>\<open>p.then(f)\<close> for an \<open>f\<close> that does not throw\<close>
  "then_map f p =
     (case p of
        Fulfilled v \<Rightarrow> Fulfilled (f v)
      | RejectedNow e \<Rightarrow> RejectedNow e
      | RejectedLater e \<Rightarrow> RejectedLater e)"

definition catch_empty :: "'a list settled \<Rightarrow> 'a list settled" where
  \<comment> \<open>\<open>p.catch(() => [])\<close>\<close>
  "catch_empty p = (case p of Fulfilled v \<Rightarrow> Fulfilled v | _ \<Rightarrow> Fulfilled [])"

definition no_privileges :: jserror where
  \<comment> \<open>\<open>this._privileges.needs\<close> before any login\<close>
  "no_privileges = type_error ''Cannot read properties of undefined''"

subsection \<open>appointments\<close>

record appointments_options =
  fillPersons :: "bool option"
  fetchAbsences :: "bool option"
  ignoreAbsenceErrors :: "bool option"

datatype arg = DateArg int | OptionsArg appointments_options | OtherArg jsval

definition default_bool :: "bool \<Rightarrow> bool option \<Rightarrow> bool" where
  \<comment> \<open>the default of a destructured property\<close>
  "default_bool d v = (case v of None \<Rightarrow> d | Some b \<Rightarrow> b)"

fun find_options :: "arg list \<Rightarrow> appointments_options option" where
  \<comment> \<open>the first plain object among the arguments\<close>
  "find_options [] = None"
| "find_options (OptionsArg opts # xs) = Some opts"
| "find_options (x # xs) = find_options xs"

fun dates_of :: "arg list \<Rightarrow> int list" where
  \<comment> \<open>\<open>_(arguments).filter(_.isDate)\<close>\<close>
  "dates_of [] = []"
| "dates_of (DateArg d # xs) = d # dates_of xs"
| "dates_of (x # xs) = dates_of xs"

definition options_of :: "arg list \<Rightarrow> appointments_options" where
  \<comment> \<open>\<open>_.find(arguments, _.isPlainObject) || {}\<close>\<close>
  "options_of args =
     (case find_options args of
        None \<Rightarrow> \<lparr>fillPersons = None, fetchAbsences = None, ignoreAbsenceErrors = None\<rparr>
      | Some opts \<Rightarrow> opts)"

definition date_range :: "arg list \<Rightarrow> (int \<times> int) option" where
  \<comment> \<open>\<open>let [ from, to ] = _(arguments).filter(_.isDate).sortBy().value(); to = to || from\<close>,
      for arguments whose dates are valid dates; \<open>None\<close> when no argument is a date and
      \<open>from\<close> and \<open>to\<close> are undefined\<close>
  "date_range args =
     (case sort (dates_of args) of
        [] \<Rightarrow> None
      | from # rest \<Rightarrow> Some (from, (case rest of [] \<Rightarrow> from | t # _ \<Rightarrow> t)))"

definition set_absenceInfo :: "absenceInfo option \<Rightarrow> appointment \<Rightarrow> appointment" where
  "set_absenceInfo i a = Appointment (a_id a) (a_start a) (a_teachers a) i (a_url a)"

definition set_teachers :: "person list \<Rightarrow> appointment \<Rightarrow> appointment" where
  "set_teachers ts a = Appointment (a_id a) (a_start a) ts (a_absenceInfo a) (a_url a)"

definition link_absences :: "absenceInfo list \<Rightarrow> appointment list \<Rightarrow> appointment list" where
  \<comment> \<open>\<open>for (const a of appointments) a.absenceInfo = absences.find(i => i.appointment.id === a.id)\<close>\<close>
  "link_absences absences as =
     map (\<lambda>a. set_absenceInfo (List.find (\<lambda>i. a_id (i_appointment i) = a_id a) absences) a) as"

fun fill_teachers :: "host \<Rightarrow> client \<Rightarrow> person list \<Rightarrow> (jserror + person) list \<times> client" where
  \<comment> \<open>\<open>a.teachers.map(t => t.getFilled('teacher'))\<close>, every call started in turn\<close>
  "fill_teachers h c [] = ([], c)"
| "fill_teachers h c (t # ts) =
     (let (r, c1) = getFilled h c t ''teacher'';
          (rs, c2) = fill_teachers h c1 ts
      in (r # rs, c2))"

definition lefts :: "('e + 'a) list \<Rightarrow> 'e list" where
  "lefts rs = concat (map (\<lambda>r. case r of Inl e \<Rightarrow> [e] | Inr _ \<Rightarrow> []) rs)"

definition rights :: "('e + 'a) list \<Rightarrow> 'a list" where
  "rights rs = concat (map (\<lambda>r. case r of Inl _ \<Rightarrow> [] | Inr v \<Rightarrow> [v]) rs)"

fun fill_appointments ::
  "host \<Rightarrow> client \<Rightarrow> appointment list \<Rightarrow> (jserror list \<times> appointment list) \<times> client" where
  \<comment> \<open>the rejections of all \<open>getFilled\<close> calls, and the appointments with their
      teachers replaced\<close>
  "fill_appointments h c [] = (([], []), c)"
| "fill_appointments h c (a # as) =
     (let (rs, c1) = fill_teachers h c (a_teachers a);
          ((es, bs), c2) = fill_appointments h c1 as
      in ((lefts rs @ es, set_teachers (rights rs) a # bs), c2))"

definition fill_persons ::
  "host \<Rightarrow> client \<Rightarrow> bool \<Rightarrow> appointment list \<Rightarrow> appointment list settled \<times> client" where
  \<comment> \<open>the last \<open>then\<close> of \<open>appointments\<close>\<close>
  "fill_persons h c fillP as =
     (if \<not> fillP then (Fulfilled as, c)
      else
        (let ((es, bs), c1) = fill_appointments h c as
         in (if es = [] then Fulfilled bs else RejectedLater (pick_rejection h es), c1)))"

definition afspraken_url :: "client \<Rightarrow> string \<Rightarrow> string \<Rightarrow> string" where
  \<comment> \<open>\<open>appointmentsUrl\<close>, from \<open>fromUrl\<close> and \<open>toUrl\<close>\<close>
  "afspraken_url c fromUrl toUrl =
     str_or_undefined (personUrl c) @ ''/afspraken?van='' @ fromUrl @ ''&tot='' @ toUrl"

definition absenties_url :: "client \<Rightarrow> string \<Rightarrow> string \<Rightarrow> string" where
  \<comment> \<open>\<open>absencesUrl\<close>, from \<open>fromUrl\<close> and \<open>toUrl\<close>\<close>
  "absenties_url c fromUrl toUrl =
     str_or_undefined (personUrl c) @ ''/absenties?van='' @ fromUrl @ ''&tot='' @ toUrl"

definition appointments_url :: "host \<Rightarrow> client \<Rightarrow> int \<Rightarrow> int \<Rightarrow> string" where
  \<comment> \<open>\<open>appointmentsUrl\<close> for the dates \<open>from\<close> and \<open>to\<close>\<close>
  "appointments_url h c from to =
     afspraken_url c (urlDateConvert h from) (urlDateConvert h to)"

definition absences_url :: "host \<Rightarrow> client \<Rightarrow> int \<Rightarrow> int \<Rightarrow> string" where
  \<comment> \<open>\<open>absencesUrl\<close> for the dates \<open>from\<close> and \<open>to\<close>\<close>
  "absences_url h c from to =
     absenties_url c (urlDateConvert h from) (urlDateConvert h to)"

definition date_urls :: "host \<Rightarrow> arg list \<Rightarrow> jserror + string \<times> string" where
  \<comment> \<open>\<open>fromUrl\<close> and \<open>toUrl\<close>; without a date among the arguments both conversions are
      applied to \<open>undefined\<close>\<close>
  "date_urls h args =
     (case date_range args of
        None \<Rightarrow>
          (case urlDateConvert_undefined h of Inl e \<Rightarrow> Inl e | Inr u \<Rightarrow> Inr (u, u))
      | Some (from, to) \<Rightarrow> Inr (urlDateConvert h from, urlDateConvert h to))"

definition absences_promise_at ::
  "host \<Rightarrow> client \<Rightarrow> privileges \<Rightarrow> bool \<Rightarrow> bool \<Rightarrow> string \<Rightarrow> string
     \<Rightarrow> absenceInfo list settled \<times> client" where
  \<comment> \<open>\<open>absencesPromise\<close>, from \<open>Promise.resolve([])\<close> to the \<open>catch\<close>\<close>
  "absences_promise_at h c ps fetchA ignoreE fromUrl toUrl =
     (if fetchA then
        (let (p, c1) = read_items h c ps ''Absenties'' (absenties_url c fromUrl toUrl)
                         (mkAbsenceInfo h)
         in (if ignoreE then catch_empty p else p, c1))
      else (Fulfilled [], c))"

definition absences_promise ::
  "host \<Rightarrow> client \<Rightarrow> privileges \<Rightarrow> bool \<Rightarrow> bool \<Rightarrow> int \<Rightarrow> int
     \<Rightarrow> absenceInfo list settled \<times> client" where
  \<comment> \<open>\<open>absencesPromise\<close> for the dates \<open>from\<close> and \<open>to\<close>\<close>
  "absences_promise h c ps fetchA ignoreE from to =
     absences_promise_at h c ps fetchA ignoreE (urlDateConvert h from) (urlDateConvert h to)"

definition appointments ::
  "host \<Rightarrow> client \<Rightarrow> arg list \<Rightarrow> appointment list outcome \<times> client" where
  "appointments h c args =
     (let options = options_of args;
          fillP = default_bool False (fillPersons options);
          fetchA = default_bool True (fetchAbsences options);
          ignoreE = default_bool True (ignoreAbsenceErrors options)
      in
        (case date_urls h args of
           Inl e \<Rightarrow> (Threw e, c)
         | Inr (fromUrl, toUrl) \<Rightarrow>
             (case m_privileges c of
                None \<Rightarrow> (Threw no_privileges, c)
              | Some ps \<Rightarrow>
                  (let (appointmentsPromise, c1) =
                         read_items h c ps ''afspraken'' (afspraken_url c fromUrl toUrl)
                           (mkAppointment h);
                       (absencesPromise, c2) =
                         absences_promise_at h c1 ps fetchA ignoreE fromUrl toUrl
                   in
                     (case promise_all2 h appointmentsPromise absencesPromise of
                        RejectedNow e \<Rightarrow> (Returned (RejectedNow e), c2)
                      | RejectedLater e \<Rightarrow> (Returned (RejectedLater e), c2)
                      | Fulfilled (as, absences) \<Rightarrow>
                          (let (p, c3) = fill_persons h c2 fillP
                                           (sort_key a_start (link_absences absences as))
                           in (Returned p, c3)))))))"

subsection \<open>courses and messageFolders\<close>

definition courses :: "host \<Rightarrow> client \<Rightarrow> course list outcome \<times> client" where
  "courses h c =
     (case m_privileges c of
        None \<Rightarrow> (Threw no_privileges, c)
      | Some ps \<Rightarrow>
          (let (p, c1) = read_items h c ps ''aanmeldingen''
                           (str_or_undefined (personUrl c) @ ''/aanmeldingen'') (mkCourse h)
           in (Returned (then_map (sort_key c_start) p), c1)))"

definition messageFolders :: "host \<Rightarrow> client \<Rightarrow> messageFolder list outcome \<times> client" where
  "messageFolders h c =
     (case m_privileges c of
        None \<Rightarrow> (Threw no_privileges, c)
      | Some ps \<Rightarrow>
          (let (p, c1) = read_items h c ps ''berichten''
                           (str_or_undefined (personUrl c) @ ''/berichten/mappen'')
                           (mkMessageFolder h)
           in (Returned p, c1)))"

subsection \<open>persons\<close>

definition type_code :: "host \<Rightarrow> string \<Rightarrow> string" where
  \<comment> \<open>the lookup of \<open>type\<close> in the table of person types, as the URL prints it; the
      table is an object, so the lookup also finds what every object inherits\<close>
  "type_code h t =
     (if t = ''teacher'' then ''Personeel''
      else if t = ''pupil'' then ''Leerling''
      else if t = ''project'' then ''Project''
      else (case inherited h t of Some s \<Rightarrow> s | None \<Rightarrow> ''Overig''))"

definition filled_person :: "host \<Rightarrow> jsval \<Rightarrow> jserror + person" where
  \<comment> \<open>\<open>p = new Person(this, p); p._filled = true\<close>\<close>
  "filled_person h x =
     (case mkPerson h x of Inl e \<Rightarrow> Inl e | Inr p \<Rightarrow> Inr (Person (person_raw p) True))"

function persons ::
  "host \<Rightarrow> client \<Rightarrow> string option \<Rightarrow> string option \<Rightarrow> person list outcome \<times> client" where
  "persons h c query type =
     (let query1 = (case query of None \<Rightarrow> [] | Some q \<Rightarrow> trim q)
      in
        if length query1 < 3 then (Returned (Fulfilled []), c)
        else
          (case type of
             None \<Rightarrow>
               (case persons h c (Some query1) (Some ''teacher'') of
                  (Threw e, c1) \<Rightarrow> (Threw e, c1)
                | (Returned teachers, c1) \<Rightarrow>
                    (case persons h c1 (Some query1) (Some ''pupil'') of
                       (Threw e, c2) \<Rightarrow> (Threw e, c2)
                     | (Returned pupils, c2) \<Rightarrow>
                         (Returned (then_map (\<lambda>(ts, ps). ts @ ps)
                                      (promise_all2 h teachers pupils)), c2)))
           | Some t \<Rightarrow>
               (let url = str_or_undefined (personUrl c)
                      @ ''/contactpersonen?contactPersoonType='' @ type_code h t
                      @ ''&q='' @ collapse_spaces query1
                in
                  (case m_privileges c of
                     None \<Rightarrow> (Threw no_privileges, c)
                   | Some ps \<Rightarrow>
                       (let (p, c1) = read_items h c ps ''contactpersonen'' url (filled_person h)
                        in (Returned p, c1))))))"
  by pat_completeness auto
termination
  by (relation "measure (\<lambda>(h, c, query, type). if type = None then 1 else 0)") auto

section \<open>login\<close>

definition new_Magister :: "login_options \<Rightarrow> string \<Rightarrow> client" where
  \<comment> \<open>the constructor, with the URL of the school\<close>
  "new_Magister options url =
     \<lparr>m_options = options, school_url = url, http_cookie = None, http_log = [],
      profileInfo = None, m_privileges = None, personUrl = None, pupilUrl = None\<rparr>"

definition setSessionId :: "client \<Rightarrow> string \<Rightarrow> client" where
  "setSessionId c sid =
     c\<lparr>http_cookie := Some (''SESSION_ID='' @ sid @ ''; M6UserName=''
                              @ str_or_undefined (username (m_options c)))\<rparr>"

definition base_url :: "string \<Rightarrow> string" where
  \<comment> \<open>\<open>url.replace(/^https?/, 'https')\<close>\<close>
  "base_url u =
     (if take 5 u = ''https'' then ''https'' @ drop 5 u
      else if take 4 u = ''http'' then ''https'' @ drop 4 u
      else u)"

definition is_sid_char :: "char \<Rightarrow> bool" where
  \<comment> \<open>the class \<open>[a-z\d-]\<close>\<close>
  "is_sid_char ch =
     (let n = (of_char ch :: nat)
      in (97 \<le> n \<and> n \<le> 122) \<or> (48 \<le> n \<and> n \<le> 57) \<or> n = 45)"

definition session_cookie :: "response \<Rightarrow> jserror + string" where
  \<comment> \<open>\<open>/[a-z\d-]+/.exec(r.headers.get('set-cookie'))[0]\<close>; a missing header is \<open>null\<close>,
      which the pattern reads as the string \<open>null\<close>\<close>
  "session_cookie r =
     (let s = (case set_cookie r of None \<Rightarrow> ''null'' | Some x \<Rightarrow> x);
          rest = dropWhile (\<lambda>ch. \<not> is_sid_char ch) s
      in if rest = [] then Inl (type_error ''Cannot read properties of null'')
         else Inr (takeWhile is_sid_char rest))"

definition invalid_credentials :: "string list" where
  "invalid_credentials =
     [''Ongeldig account of verkeerde combinatie van gebruikersnaam en wachtwoord. Probeer het nog eens of neem contact op met de applicatiebeheerder van de school.'',
      ''Je gebruikersnaam en/of wachtwoord is niet correct.'']"

definition classify :: "jserror \<Rightarrow> jserror" where
  \<comment> \<open>what the \<open>catch\<close> of the negotiation throws\<close>
  "classify err =
     (if message err \<in> set invalid_credentials then JsError AuthError (message err) else err)"

definition opt_str :: "string option \<Rightarrow> jsval" where
  "opt_str s = (case s of None \<Rightarrow> JUndefined | Some x \<Rightarrow> JStr x)"

definition negotiate :: "host \<Rightarrow> client \<Rightarrow> (jserror + string) \<times> client" where
  \<comment> \<open>delete the current session and create a new one, up to the \<open>catch\<close>\<close>
  "negotiate h c =
     (let baseUrl = base_url (school_url c);
          (r, c1) = http_delete h c (baseUrl @ ''/api/sessies/huidige'')
      in
        (case r of
           Inl e \<Rightarrow> (Inl e, c1)
         | Inr res \<Rightarrow>
             (case session_cookie res of
                Inl e \<Rightarrow> (Inl e, c1)
              | Inr sid \<Rightarrow>
                  (let c2 = setSessionId c1 sid;
                       (r2, c3) = http_post h c2 (baseUrl @ ''/api/sessies'')
                         (JObj [(''Gebruikersnaam'', opt_str (username (m_options c))),
                                (''Wachtwoord'', opt_str (password (m_options c))),
                                (''IngelogdBlijven'', JBool (keepLoggedIn (m_options c)))])
                   in (case r2 of
                         Inl e \<Rightarrow> (Inl e, c3)
                       | Inr res2 \<Rightarrow> (session_cookie res2, c3))))))"

definition account :: "host \<Rightarrow> string \<Rightarrow> jsval \<Rightarrow> client \<Rightarrow> jserror option \<times> client" where
  \<comment> \<open>the handler of the account response; \<open>profileInfo\<close> keeps the \<open>Persoon\<close> object\<close>
  "account h baseUrl res c =
     (case get_prop res ''Persoon'' of
        Inl e \<Rightarrow> (Some e, c)
      | Inr persoon \<Rightarrow>
     (case get_prop persoon ''Id'' of
        Inl e \<Rightarrow> (Some e, c)
      | Inr ident \<Rightarrow>
          (let c1 = c\<lparr>profileInfo := Some persoon\<rparr>
           in
     (case get_prop res ''Groep'' of
        Inl e \<Rightarrow> (Some e, c1)
      | Inr groep \<Rightarrow>
     (case get_index groep 0 of
        Inl e \<Rightarrow> (Some e, c1)
      | Inr g \<Rightarrow>
     (case get_prop g ''Privileges'' of
        Inl e \<Rightarrow> (Some e, c1)
      | Inr raw \<Rightarrow>
     (case mkPrivileges h raw of
        Inl e \<Rightarrow> (Some e, c1)
      | Inr ps \<Rightarrow>
          (None, c1\<lparr>m_privileges := Some ps,
                    personUrl := Some (baseUrl @ ''/api/personen/'' @ toString h ident),
                    pupilUrl := Some (baseUrl @ ''/api/leerlingen/'' @ toString h ident)\<rparr>))))))))"

definition login :: "host \<Rightarrow> client \<Rightarrow> bool \<Rightarrow> string outcome \<times> client" where
  "login h c forceNew =
     (let baseUrl = base_url (school_url c);
          (promise, c1) =
            (case (if forceNew then None else sessionId (m_options c)) of
               Some (x # xs) \<Rightarrow> (Inr (x # xs), c)
             | _ \<Rightarrow>
                 (let (r, c1) = negotiate h c
                  in (case r of Inl err \<Rightarrow> (Inl (classify err), c1) | Inr sid \<Rightarrow> (Inr sid, c1))))
      in
        (case promise of
           Inl e \<Rightarrow> (Returned (RejectedLater e), c1)
         | Inr sid \<Rightarrow>
             (let c2 = setSessionId c1 sid;
                  (r, c3) = http_get h c2 (baseUrl @ ''/api/account'')
              in
                (case res_json r of
                   Inl e \<Rightarrow> (Returned (RejectedLater e), c3)
                 | Inr res \<Rightarrow>
                     (case account h baseUrl res c3 of
                        (Some e, c4) \<Rightarrow> (Returned (RejectedLater e), c4)
                      | (None, c4) \<Rightarrow> (Returned (Fulfilled sid), c4))))))"

section \<open>Observations and test doubles\<close>

fun rejection :: "'a outcome \<Rightarrow> jserror option" where
  "rejection (Returned (RejectedNow e)) = Some e"
| "rejection (Returned (RejectedLater e)) = Some e"
| "rejection out = None"

definition rejects_with :: "errkind \<Rightarrow> 'a outcome \<Rightarrow> bool" where
  "rejects_with k out = (case rejection out of None \<Rightarrow> False | Some e \<Rightarrow> kind e = k)"

fun rejected :: "'a settled \<Rightarrow> bool" where
  "rejected (Fulfilled v) = False"
| "rejected (RejectedNow e) = True"
| "rejected (RejectedLater e) = True"

definition issued :: "client \<Rightarrow> client \<Rightarrow> request list" where
  \<comment> \<open>the requests a call has issued, from the client before and after it\<close>
  "issued c c' = drop (length (http_log c)) (http_log c')"

text \<open>
  A portal for examples. It answers the request that deletes the session with a session
  cookie, refuses the credentials of the request that creates one, and serves one
  account, two appointments and one absence record.
\<close>

definition demo_account :: jsval where
  "demo_account =
     JObj [(''Persoon'', JObj [(''Id'', JNum 7)]),
           (''Groep'', JArr [JObj [(''Privileges'', JArr [])]])]"

definition demo_appointments :: jsval where
  "demo_appointments =
     JObj [(''Items'', JArr [JObj [(''Id'', JStr ''b''), (''Start'', JNum 200)],
                             JObj [(''Id'', JStr ''a''), (''Start'', JNum 100)]])]"

definition demo_absences :: jsval where
  "demo_absences =
     JObj [(''Items'', JArr [JObj [(''Afspraak'',
                                     JObj [(''Id'', JStr ''a''), (''Start'', JNum 100)])]])]"

definition demo_send :: "request list \<Rightarrow> request \<Rightarrow> jserror + response" where
  "demo_send log req =
     (if r_method req = DELETE then
        Inr \<lparr>set_cookie = Some ''SESSION_ID=old-1; path=/'', json = Inr JNull\<rparr>
      else if r_method req = POST then
        Inl (JsError Error ''Je gebruikersnaam en/of wachtwoord is niet correct.'')
      else if take 4 (r_url req) = ''p/af'' then
        Inr \<lparr>set_cookie = None, json = Inr demo_appointments\<rparr>
      else if take 4 (r_url req) = ''p/ab'' then
        Inr \<lparr>set_cookie = None, json = Inr demo_absences\<rparr>
      else
        Inr \<lparr>set_cookie = None, json = Inr demo_account\<rparr>)"

definition demo_mkAppointment :: "jsval \<Rightarrow> jserror + appointment" where
  "demo_mkAppointment v =
     (case (get_prop v ''Id'', get_prop v ''Start'') of
        (Inr (JStr i), Inr (JNum s)) \<Rightarrow> Inr (Appointment i s [] None None)
      | _ \<Rightarrow> Inl (type_error ''not an appointment''))"

definition demo_mkAbsenceInfo :: "jsval \<Rightarrow> jserror + absenceInfo" where
  "demo_mkAbsenceInfo v =
     (case get_prop v ''Afspraak'' of
        Inl e \<Rightarrow> Inl e
      | Inr a \<Rightarrow>
          (case demo_mkAppointment a of Inl e \<Rightarrow> Inl e | Inr ap \<Rightarrow> Inr (AbsenceInfo ap v)))"

definition demo_host :: host where
  "demo_host =
     \<lparr>send = demo_send,
      toString = (\<lambda>v. case v of JNum n \<Rightarrow> (if n = 7 then ''7'' else ''86400000'')
                              | JStr s \<Rightarrow> s
                              | _ \<Rightarrow> ''Thu Jan 01 1970 00:00:00 GMT+0000''),
      toISOString = (\<lambda>t. ''1970-01-01T00:00:00.000Z''),
      inherited = (\<lambda>name. if name = ''constructor''
                           then Some ''function Object() { [native code] }'' else None),
      urlDateConvert = (\<lambda>t. if t < 86400000 then ''1970-01-01'' else ''1970-01-02''),
      urlDateConvert_undefined = Inl (type_error ''Cannot read properties of undefined''),
      date = (\<lambda>t. t - t mod 86400000),
      mkAppointment = demo_mkAppointment,
      mkAbsenceInfo = demo_mkAbsenceInfo,
      mkCourse = (\<lambda>v. Inr (Course 0 v)),
      mkMessageFolder = (\<lambda>v. Inr (MessageFolder v)),
      mkPerson = (\<lambda>v. Inr (Person v False)),
      mkPrivileges = (\<lambda>v. Inr []),
      getFilled = (\<lambda>c p t. (Inr p, c)),
      race = (\<lambda>es. 0)\<rparr>"

definition demo_client :: "privileges \<Rightarrow> client" where
  \<comment> \<open>a client after a login, with the given privileges\<close>
  "demo_client ps =
     \<lparr>m_options = \<lparr>username = Some ''u'', password = Some ''pw'', sessionId = None,
                   keepLoggedIn = True\<rparr>,
      school_url = ''http://school'',
      http_cookie = Some ''SESSION_ID=s1; M6UserName=u'',
      http_log = [],
      profileInfo = None,
      m_privileges = Some ps,
      personUrl = Some ''p'',
      pupilUrl = Some ''q''\<rparr>"

definition demo_options :: create_options where
  "demo_options =
     \<lparr>o_description = JStr ''d'', o_start = JDate 90000000, o_end = JDate 93600000,
      o_fullDay = JBool True, o_location = JUndefined, o_content = JUndefined,
      o_type = JUndefined\<rparr>"

definition demo_credentials :: client where
  \<comment> \<open>a new client with a user name and a password\<close>
  "demo_credentials =
     new_Magister \<lparr>username = Some ''u'', password = Some ''pw'', sessionId = None,
                   keepLoggedIn = True\<rparr> ''http://school''"

definition demo_session :: client where
  \<comment> \<open>a new client with a session id\<close>
  "demo_session =
     new_Magister \<lparr>username = None, password = None, sessionId = Some ''abc'',
                   keepLoggedIn = True\<rparr> ''http://school''"

definition offline_host :: host where
  \<comment> \<open>a host whose every request fails\<close>
  "offline_host =
     demo_host\<lparr>send := (\<lambda>log req. Inl (JsError (OtherError ''FetchError'') ''network down''))\<rparr>"

definition account_request :: "client \<Rightarrow> string \<Rightarrow> request" where
  \<comment> \<open>the request for the account that follows the adoption of the session id \<open>sid\<close>\<close>
  "account_request c sid =
     \<lparr>r_method = GET, r_url = base_url (school_url c) @ ''/api/account'',
      r_cookie = http_cookie (setSessionId c sid), r_body = JUndefined\<rparr>"

definition denied :: "string \<Rightarrow> jserror" where
  \<comment> \<open>the rejection of \<open>needs thing 'read'\<close>\<close>
  "denied thing = JsError PermissionError (''Account is not privileged to read '' @ thing)"

definition demo_absentee :: client where
  \<comment> \<open>a client that may read absences and nothing else\<close>
  "demo_absentee = demo_client [(''absenties'', [''read''])]"

definition demo_reader :: client where
  \<comment> \<open>a client that may read appointments and absences\<close>
  "demo_reader = demo_client [(''Afspraken'', [''read'']), (''absenties'', [''read''])]"

definition demo_result :: "appointment list" where
  \<comment> \<open>the appointments of the example portal, sorted and linked\<close>
  "demo_result =
     [Appointment ''a'' 100 []
        (Some (AbsenceInfo (Appointment ''a'' 100 [] None None)
                 (JObj [(''Afspraak'', JObj [(''Id'', JStr ''a''), (''Start'', JNum 100)])])))
        None,
      Appointment ''b'' 200 [] None None]"

definition absences_down_host :: host where
  \<comment> \<open>the example portal with the absences out of reach\<close>
  "absences_down_host =
     demo_host\<lparr>send := (\<lambda>log req.
        if take 4 (r_url req) = ''p/ab''
        then Inl (JsError (OtherError ''FetchError'') ''network down'')
        else demo_send log req)\<rparr>"

definition demo_fetched :: "appointment list" where
  "demo_fetched = [Appointment ''b'' 200 [] None None, Appointment ''a'' 100 [] None None]"

definition demo_sorted :: "appointment list" where
  "demo_sorted = [Appointment ''a'' 100 [] None None, Appointment ''b'' 200 [] None None]"

declare persons.simps [simp del]

section \<open>Properties of createAppointment\<close>

lemma validation_message:
  "validation_error = JsError Error
     ''Not all required fields for `options` are given, required are: [ description, start, end ]''"
  by (simp add: validation_error_def required_def)

lemma issued_same: "issued c c = []"
  by (simp add: issued_def)

text \<open>
  Claim C1. With \<open>description\<close>, \<open>start\<close> and \<open>end\<close> present and \<open>fullDay\<close> true, the
  end of the appointment should be 24 hours after the date-only value of \<open>start\<close>.
  The code adds the number of milliseconds to a \<open>Date\<close> object instead of to its time
  value: at the options \<open>demo_options\<close> (start 1970-01-02T01:00Z, end one hour later),
  on every host and client, \<open>options.end\<close> becomes the string of the normalised date
  followed by the digits \<open>86400000\<close>, which is not the date 24 hours later, and the
  call throws a \<open>TypeError\<close> when it asks that string for its \<open>toJSON\<close> method.
\<close>

theorem createAppointment_fullDay_end:
  "createAppointment h c demo_options =
     (Threw (type_error ''toJSON is not a function''),
      demo_options\<lparr>o_start := JDate (date h 90000000),
                    o_end := JStr (toString h (JDate (date h 90000000))
                                     @ toString h (JNum 86400000))\<rparr>,
      c)
   \<and> o_end (fst (snd (createAppointment h c demo_options)))
       \<noteq> JDate (date h 90000000 + 1000 * 60 * 60 * 24)"
  by (simp add: createAppointment_def demo_options_def required_def option_field_def nullish_def
      full_day_def date_plus_number_def build_payload_def toJSON_def)

text \<open>
  Claim C7. When \<open>description\<close>, \<open>start\<close> or \<open>end\<close> is null or absent,
  \<open>createAppointment\<close> returns a promise rejected with the validation error, whose
  message names the required fields as \<open>description, start, end\<close>; the options and the
  client are as before, and no request has been issued.
\<close>

theorem createAppointment_missing_field:
  assumes "nullish (o_description options) \<or> nullish (o_start options) \<or> nullish (o_end options)"
  shows "createAppointment h c options = (Returned (RejectedNow validation_error), options, c)
    \<and> validation_error = JsError Error
         ''Not all required fields for `options` are given, required are: [ description, start, end ]''
    \<and> issued c (snd (snd (createAppointment h c options))) = []"
proof -
  have "list_ex (\<lambda>key. nullish (option_field options key)) required"
    using assms by (auto simp: required_def option_field_def)
  then have "createAppointment h c options = (Returned (RejectedNow validation_error), options, c)"
    by (simp add: createAppointment_def)
  then show ?thesis
    by (simp add: validation_message issued_same)
qed

theorem createAppointment_missing_field_witness:
  "nullish (o_end (demo_options\<lparr>o_end := JUndefined\<rparr>))
   \<and> createAppointment demo_host (demo_client []) (demo_options\<lparr>o_end := JUndefined\<rparr>)
       = (Returned (RejectedNow validation_error), demo_options\<lparr>o_end := JUndefined\<rparr>,
          demo_client [])
   \<and> issued (demo_client [])
        (snd (snd (createAppointment demo_host (demo_client [])
                     (demo_options\<lparr>o_end := JUndefined\<rparr>)))) = []"
proof -
  have h: "nullish (o_end (demo_options\<lparr>o_end := JUndefined\<rparr>))"
    by (simp add: nullish_def)
  then have "nullish (o_description (demo_options\<lparr>o_end := JUndefined\<rparr>))
      \<or> nullish (o_start (demo_options\<lparr>o_end := JUndefined\<rparr>))
      \<or> nullish (o_end (demo_options\<lparr>o_end := JUndefined\<rparr>))"
    by simp
  from createAppointment_missing_field [OF this, of demo_host "demo_client []"] h
  show ?thesis by blast
qed

lemma createAppointment_options:
  "fst (snd (createAppointment h c options)) =
     (if list_ex (\<lambda>key. nullish (option_field options key)) required then options
      else (case full_day h options of Inl e \<Rightarrow> options | Inr options1 \<Rightarrow> options1))"
  by (simp add: createAppointment_def split: sum.splits option.splits prod.splits)

text \<open>
  Claim C10, as stated, says that \<open>createAppointment\<close> overwrites \<open>options.start\<close> and
  \<open>options.end\<close> whenever \<open>fullDay\<close> is set. It does not when a required field is
  missing: with \<open>fullDay\<close> true, a start at 1970-01-02T01:00Z (whose date-only value is
  another date) and no \<open>end\<close>, the call leaves the options as they were.
\<close>

theorem createAppointment_fullDay_unchanged_when_invalid:
  "truthy (o_fullDay (demo_options\<lparr>o_end := JUndefined\<rparr>))
   \<and> o_start (demo_options\<lparr>o_end := JUndefined\<rparr>) = JDate 90000000
   \<and> date demo_host 90000000 = 86400000
   \<and> fst (snd (createAppointment demo_host (demo_client [])
                  (demo_options\<lparr>o_end := JUndefined\<rparr>)))
       = demo_options\<lparr>o_end := JUndefined\<rparr>"
  by (simp add: createAppointment_def demo_options_def required_def option_field_def nullish_def
      demo_host_def)

text \<open>
  Claim C10, amended. When \<open>fullDay\<close> is set, \<open>description\<close> and \<open>end\<close> are present and
  \<open>start\<close> is a \<open>Date\<close>, the call leaves the caller's object with \<open>start\<close> overwritten by
  its date-only value and \<open>end\<close> overwritten by the value the code computes for the end
  of the day. When \<open>fullDay\<close> is not set, and when a required field is missing, the
  object is left as it was.
\<close>

theorem createAppointment_mutates_options:
  "(\<not> nullish (o_description options) \<and> o_start options = JDate t \<and> \<not> nullish (o_end options)
      \<and> truthy (o_fullDay options)
     \<longrightarrow> fst (snd (createAppointment h c options))
           = options\<lparr>o_start := JDate (date h t),
                     o_end := date_plus_number h (date h t) (1000 * 60 * 60 * 24)\<rparr>)
   \<and> (\<not> truthy (o_fullDay options) \<longrightarrow> fst (snd (createAppointment h c options)) = options)
   \<and> (nullish (o_description options) \<or> nullish (o_start options) \<or> nullish (o_end options)
     \<longrightarrow> fst (snd (createAppointment h c options)) = options)"
  by (auto simp: createAppointment_options required_def option_field_def nullish_def full_day_def)

theorem createAppointment_mutates_options_witness:
  "fst (snd (createAppointment demo_host (demo_client []) demo_options))
     = demo_options\<lparr>o_start := JDate 86400000,
                    o_end := JStr ''Thu Jan 01 1970 00:00:00 GMT+000086400000''\<rparr>
   \<and> fst (snd (createAppointment demo_host (demo_client [])
                  (demo_options\<lparr>o_fullDay := JBool False\<rparr>)))
     = demo_options\<lparr>o_fullDay := JBool False\<rparr>
   \<and> fst (snd (createAppointment demo_host (demo_client []) (demo_options\<lparr>o_end := JNull\<rparr>)))
     = demo_options\<lparr>o_end := JNull\<rparr>"
proof -
  have a: "\<not> nullish (o_description demo_options) \<and> o_start demo_options = JDate 90000000
      \<and> \<not> nullish (o_end demo_options) \<and> truthy (o_fullDay demo_options)"
    by (simp add: demo_options_def nullish_def)
  have b: "\<not> truthy (o_fullDay (demo_options\<lparr>o_fullDay := JBool False\<rparr>))"
    by simp
  have c: "nullish (o_description (demo_options\<lparr>o_end := JNull\<rparr>))
      \<or> nullish (o_start (demo_options\<lparr>o_end := JNull\<rparr>))
      \<or> nullish (o_end (demo_options\<lparr>o_end := JNull\<rparr>))"
    by (simp add: nullish_def)
  have d: "date_plus_number demo_host (date demo_host 90000000) (1000 * 60 * 60 * 24)
      = JStr ''Thu Jan 01 1970 00:00:00 GMT+000086400000''"
    by (simp add: date_plus_number_def demo_host_def)
  have e: "date demo_host 90000000 = 86400000"
    by (simp add: demo_host_def)
  from createAppointment_mutates_options [of demo_options 90000000 demo_host "demo_client []"] a
  have 1: "fst (snd (createAppointment demo_host (demo_client []) demo_options))
     = demo_options\<lparr>o_start := JDate 86400000,
                    o_end := JStr ''Thu Jan 01 1970 00:00:00 GMT+000086400000''\<rparr>"
    using d e by simp
  from createAppointment_mutates_options
    [of "demo_options\<lparr>o_fullDay := JBool False\<rparr>" 0 demo_host "demo_client []"] b
  have 2: "fst (snd (createAppointment demo_host (demo_client [])
                       (demo_options\<lparr>o_fullDay := JBool False\<rparr>)))
     = demo_options\<lparr>o_fullDay := JBool False\<rparr>"
    by blast
  from createAppointment_mutates_options
    [of "demo_options\<lparr>o_end := JNull\<rparr>" 0 demo_host "demo_client []"] c
  have 3: "fst (snd (createAppointment demo_host (demo_client []) (demo_options\<lparr>o_end := JNull\<rparr>)))
     = demo_options\<lparr>o_end := JNull\<rparr>"
    by blast
  from 1 2 3 show ?thesis by blast
qed

section \<open>Properties of persons\<close>

text \<open>
  Claim C8. When the trimmed query has fewer than three characters (a null or undefined
  query counts as the empty string), \<open>persons\<close> resolves to the empty list for every
  \<open>type\<close>, and issues no request.
\<close>

theorem persons_short_query:
  assumes "length (case query of None \<Rightarrow> [] | Some q \<Rightarrow> trim q) < 3"
  shows "persons h c query type = (Returned (Fulfilled []), c)
    \<and> issued c (snd (persons h c query type)) = []"
  using assms by (simp add: persons.simps [of h c query type] issued_same)

theorem persons_short_query_witness:
  "length (case Some '' ab '' of None \<Rightarrow> [] | Some q \<Rightarrow> trim q) < 3
   \<and> persons demo_host (demo_client [(''contactpersonen'', [''read''])]) (Some '' ab '') None
       = (Returned (Fulfilled []), demo_client [(''contactpersonen'', [''read''])])"
proof -
  have h: "length (case Some '' ab '' of None \<Rightarrow> [] | Some q \<Rightarrow> trim q) < 3"
    by (simp add: trim_def is_space_def)
  from persons_short_query [OF h] h show ?thesis by blast
qed

section \<open>Properties of appointments\<close>



lemma date_urls_range:
  "date_range args = Some (from, to)
    \<Longrightarrow> date_urls h args = Inr (urlDateConvert h from, urlDateConvert h to)"
  by (simp add: date_urls_def)

lemma read_items_log:
  "http_log (snd (read_items h c ps thing u mk)) =
     http_log c @ (if can ps thing ''read''
                   then [\<lparr>r_method = GET, r_url = u, r_cookie = http_cookie c, r_body = JUndefined\<rparr>]
                   else [])"
  by (simp add: read_items_def needs_def http_get_def http_request_def Let_def)


lemma absences_promise_log:
  "http_log (snd (absences_promise h c ps fetchA ignoreE from to)) =
     http_log c @ (if fetchA \<and> can ps ''Absenties'' ''read''
                   then [\<lparr>r_method = GET, r_url = absences_url h c from to,
                          r_cookie = http_cookie c, r_body = JUndefined\<rparr>]
                   else [])"
  using read_items_log [of h c ps "''Absenties''" "absences_url h c from to" "mkAbsenceInfo h"]
  by (cases "read_items h c ps ''Absenties'' (absences_url h c from to) (mkAbsenceInfo h)")
    (simp add: absences_promise_def absences_promise_at_def absences_url_def)

lemma appointments_steps:
  assumes "m_privileges c = Some ps" and "date_range args = Some (from, to)"
    and "read_items h c ps ''afspraken'' (appointments_url h c from to) (mkAppointment h) = (p1, c1)"
    and "absences_promise h c1 ps (default_bool True (fetchAbsences (options_of args)))
           (default_bool True (ignoreAbsenceErrors (options_of args))) from to = (p2, c2)"
  shows "appointments h c args =
           (case promise_all2 h p1 p2 of
              RejectedNow e \<Rightarrow> (Returned (RejectedNow e), c2)
            | RejectedLater e \<Rightarrow> (Returned (RejectedLater e), c2)
            | Fulfilled (as, absences) \<Rightarrow>
                (case fill_persons h c2 (default_bool False (fillPersons (options_of args)))
                        (sort_key a_start (link_absences absences as)) of
                   (p, c3) \<Rightarrow> (Returned p, c3)))"
  using assms
  by (simp add: appointments_def date_urls_range appointments_url_def absences_promise_def
      Let_def split: settled.splits prod.splits)






section \<open>Properties of login\<close>

text \<open>
  Claim C4. When the negotiation of a new session fails with an error \<open>err\<close> (the request
  that deletes the session, the reading of a session cookie or the request that creates
  the session), \<open>login\<close> rejects with an \<open>AuthError\<close> carrying the message of \<open>err\<close> if
  that message is one of the two invalid-credentials messages, and with \<open>err\<close> itself,
  kind and message unchanged, otherwise.
\<close>

theorem login_failure_classified:
  assumes "forceNew \<or> sessionId (m_options c) = None \<or> sessionId (m_options c) = Some []"
    and "negotiate h c = (Inl err, c1)"
  shows "(message err \<in> set invalid_credentials
            \<longrightarrow> login h c forceNew = (Returned (RejectedLater (JsError AuthError (message err))), c1))
       \<and> (message err \<notin> set invalid_credentials
            \<longrightarrow> login h c forceNew = (Returned (RejectedLater err), c1))"
  using assms by (auto simp: login_def classify_def)

lemma demo_negotiate:
  "fst (negotiate demo_host demo_credentials)
    = Inl (JsError Error ''Je gebruikersnaam en/of wachtwoord is niet correct.'')"
  by code_simp

lemma offline_negotiate:
  "fst (negotiate offline_host demo_credentials)
    = Inl (JsError (OtherError ''FetchError'') ''network down'')"
  by code_simp

lemma in_cred: "''Je gebruikersnaam en/of wachtwoord is niet correct.'' \<in> set invalid_credentials"
  by (simp add: invalid_credentials_def)
lemma notin_cred: "''network down'' \<notin> set invalid_credentials"
  by (simp add: invalid_credentials_def)

theorem login_failure_classified_witness:
  "login demo_host demo_credentials False
     = (Returned (RejectedLater (JsError AuthError
          ''Je gebruikersnaam en/of wachtwoord is niet correct.'')),
        snd (negotiate demo_host demo_credentials))
   \<and> login offline_host demo_credentials False
     = (Returned (RejectedLater (JsError (OtherError ''FetchError'') ''network down'')),
        snd (negotiate offline_host demo_credentials))"
proof -
  have s: "False \<or> sessionId (m_options demo_credentials) = None
      \<or> sessionId (m_options demo_credentials) = Some []"
    by (simp add: demo_credentials_def new_Magister_def)
  have a: "negotiate demo_host demo_credentials
      = (Inl (JsError Error ''Je gebruikersnaam en/of wachtwoord is niet correct.''),
         snd (negotiate demo_host demo_credentials))"
    using demo_negotiate by (simp add: prod_eq_iff)
  have b: "negotiate offline_host demo_credentials
      = (Inl (JsError (OtherError ''FetchError'') ''network down''),
         snd (negotiate offline_host demo_credentials))"
    using offline_negotiate by (simp add: prod_eq_iff)
  from login_failure_classified [OF s a] in_cred
  have 1: "login demo_host demo_credentials False
     = (Returned (RejectedLater (JsError AuthError
          ''Je gebruikersnaam en/of wachtwoord is niet correct.'')),
        snd (negotiate demo_host demo_credentials))"
    by simp
  from login_failure_classified [OF s b] notin_cred
  have 2: "login offline_host demo_credentials False
     = (Returned (RejectedLater (JsError (OtherError ''FetchError'') ''network down'')),
        snd (negotiate offline_host demo_credentials))"
    by simp
  from 1 2 show ?thesis by blast
qed

lemma account_log: "http_log (snd (account h b res c)) = http_log c"
  by (simp add: account_def Let_def split: sum.splits)

lemma login_adopt:
  assumes "sessionId (m_options c) = Some sid" and "sid \<noteq> []"
  shows "login h c False =
     (case res_json (send h (http_log c) (account_request c sid)) of
        Inl e \<Rightarrow> (Returned (RejectedLater e),
                  (setSessionId c sid)\<lparr>http_log := http_log c @ [account_request c sid]\<rparr>)
      | Inr res \<Rightarrow>
          (case account h (base_url (school_url c)) res
                  ((setSessionId c sid)\<lparr>http_log := http_log c @ [account_request c sid]\<rparr>) of
             (Some e, c4) \<Rightarrow> (Returned (RejectedLater e), c4)
           | (None, c4) \<Rightarrow> (Returned (Fulfilled sid), c4)))"
proof -
  obtain x xs where sid: "sid = x # xs" using assms(2) by (cases sid) auto
  show ?thesis
    using assms(1) unfolding sid
    by (simp add: login_def http_get_def http_request_def account_request_def setSessionId_def
        Let_def split: sum.splits)
qed

text \<open>
  Claim C5. On a client that holds a non-empty session id, \<open>login\<close> without \<open>forceNew\<close>
  issues exactly one request, the \<open>GET\<close> for the account, with the cookie of that session
  id: it neither deletes nor creates a session. Whenever it resolves it resolves with that
  session id, and it does resolve when the account request succeeds and its response
  decodes.
\<close>

theorem login_adopts_session_id:
  assumes "sessionId (m_options c) = Some sid" and "sid \<noteq> []"
  shows "issued c (snd (login h c False)) = [account_request c sid]
    \<and> (\<forall>s. fst (login h c False) = Returned (Fulfilled s) \<longrightarrow> s = sid)
    \<and> (\<forall>res body.
          send h (http_log c) (account_request c sid) = Inr res \<and> json res = Inr body
          \<and> fst (account h (base_url (school_url c)) body
                   ((setSessionId c sid)\<lparr>http_log := http_log c @ [account_request c sid]\<rparr>)) = None
          \<longrightarrow> fst (login h c False) = Returned (Fulfilled sid))"
proof (cases "res_json (send h (http_log c) (account_request c sid))")
  case (Inl e)
  then show ?thesis
    by (auto simp: login_adopt [OF assms] issued_def res_json_def)
next
  case (Inr body)
  let ?c3 = "(setSessionId c sid)\<lparr>http_log := http_log c @ [account_request c sid]\<rparr>"
  obtain r c4 where acc: "account h (base_url (school_url c)) body ?c3 = (r, c4)"
    by (cases "account h (base_url (school_url c)) body ?c3")
  have "http_log c4 = http_log ?c3"
    using account_log [of h "base_url (school_url c)" body ?c3] acc by simp
  then have log: "http_log c4 = http_log c @ [account_request c sid]"
    by simp
  have l: "login h c False =
      (case r of Some e \<Rightarrow> (Returned (RejectedLater e), c4) | None \<Rightarrow> (Returned (Fulfilled sid), c4))"
    by (simp add: login_adopt [OF assms] Inr acc split: option.splits)
  show ?thesis
  proof (cases r)
    case None
    then show ?thesis using l log by (simp add: issued_def)
  next
    case (Some e)
    then show ?thesis using l log Inr acc by (auto simp: issued_def res_json_def)
  qed
qed



theorem login_adopts_session_id_witness:
  "issued demo_session (snd (login demo_host demo_session False))
     = [\<lparr>r_method = GET, r_url = ''https://school/api/account'',
         r_cookie = Some ''SESSION_ID=abc; M6UserName=undefined'', r_body = JUndefined\<rparr>]
   \<and> fst (login demo_host demo_session False) = Returned (Fulfilled ''abc'')"
proof -
  let ?req = "account_request demo_session ''abc''"
  have a: "sessionId (m_options demo_session) = Some ''abc''"
    by (simp add: demo_session_def new_Magister_def)
  have b: "''abc'' \<noteq> []" by simp
  have r: "?req
     = \<lparr>r_method = GET, r_url = ''https://school/api/account'',
         r_cookie = Some ''SESSION_ID=abc; M6UserName=undefined'', r_body = JUndefined\<rparr>"
    by (simp add: account_request_def demo_session_def new_Magister_def base_url_def
        setSessionId_def str_or_undefined_def)
  have s: "send demo_host (http_log demo_session) ?req
      = Inr \<lparr>set_cookie = None, json = Inr demo_account\<rparr>"
    unfolding r by (simp add: demo_host_def demo_send_def)
  have j: "json \<lparr>set_cookie = None, json = Inr demo_account\<rparr> = Inr demo_account"
    by simp
  have acc: "fst (account demo_host (base_url (school_url demo_session)) demo_account
       ((setSessionId demo_session ''abc'')\<lparr>http_log := http_log demo_session @ [?req]\<rparr>)) = None"
    by (simp add: account_def demo_account_def demo_host_def)
  note t = login_adopts_session_id [OF a b, of demo_host]
  from t have 1: "issued demo_session (snd (login demo_host demo_session False)) = [?req]"
    by (rule conjunct1)
  from t s j acc have 2: "fst (login demo_host demo_session False) = Returned (Fulfilled ''abc'')"
    by blast
  from 1 2 show ?thesis unfolding r by (rule conjI)
qed

section \<open>The privilege check before the request\<close>

lemma dropWhile_self: "xs = [] \<or> \<not> P (hd xs) \<Longrightarrow> dropWhile P xs = xs"
  by (cases xs) auto

lemma last_dropWhile: "dropWhile P xs \<noteq> [] \<Longrightarrow> last (dropWhile P xs) = last xs"
  by (induction xs) (auto split: if_splits)

lemma trim_idem: "trim (trim s) = trim s"
proof -
  define a where "a = dropWhile is_space s"
  define b where "b = dropWhile is_space (rev a)"
  have a: "a = [] \<or> \<not> is_space (hd a)"
    unfolding a_def using hd_dropWhile [of is_space s] by blast
  have b: "b = [] \<or> \<not> is_space (hd b)"
    unfolding b_def using hd_dropWhile [of is_space "rev a"] by blast
  have "rev b = [] \<or> \<not> is_space (hd (rev b))"
  proof (cases "b = []")
    case True
    then show ?thesis by simp
  next
    case False
    then have "last b = last (rev a)"
      unfolding b_def by (rule last_dropWhile)
    moreover from False have ne: "a \<noteq> []"
      unfolding b_def by (cases a) auto
    ultimately have "last b = hd a" by (simp add: last_rev)
    with a ne False show ?thesis by (simp add: hd_rev)
  qed
  then have "dropWhile is_space (rev b) = rev b" by (rule dropWhile_self)
  moreover have "dropWhile is_space b = b" using b by (rule dropWhile_self)
  ultimately show ?thesis by (simp add: trim_def a_def [symmetric] b_def [symmetric])
qed

lemma read_items_denied:
  "\<not> can ps thing ''read'' \<Longrightarrow> read_items h c ps thing u mk = (RejectedNow (denied thing), c)"
  by (simp add: read_items_def needs_def denied_def)

lemma urls_differ: "absences_url h c from to \<noteq> appointments_url h c from to"
  by (simp add: absences_url_def appointments_url_def absenties_url_def afspraken_url_def)

lemma appointments_denied:
  assumes "m_privileges c = Some ps" and "\<not> can ps ''afspraken'' ''read''"
    and "date_range args = Some (from, to)"
  shows "appointments h c args =
     (Returned (RejectedNow (denied ''afspraken'')),
      snd (absences_promise h c ps (default_bool True (fetchAbsences (options_of args)))
             (default_bool True (ignoreAbsenceErrors (options_of args))) from to))"
  using assms
  by (simp add: appointments_def date_urls_range appointments_url_def absences_promise_def
      read_items_denied promise_all2_def Let_def split: prod.splits)

lemma persons_denied_typed:
  assumes "m_privileges c = Some ps" and "\<not> can ps ''contactpersonen'' ''read''"
    and "3 \<le> length (trim q)"
  shows "persons h c (Some q) (Some t) = (Returned (RejectedNow (denied ''contactpersonen'')), c)"
  using assms by (simp add: persons.simps [of h c "Some q" "Some t"] read_items_denied)

lemma persons_denied:
  assumes "m_privileges c = Some ps" and "\<not> can ps ''contactpersonen'' ''read''"
    and "3 \<le> length (trim q)"
  shows "persons h c (Some q) type = (Returned (RejectedNow (denied ''contactpersonen'')), c)"
proof (cases type)
  case None
  have "3 \<le> length (trim (trim q))" using assms(3) by (simp add: trim_idem)
  then have "\<And>t. persons h c (Some (trim q)) (Some t)
      = (Returned (RejectedNow (denied ''contactpersonen'')), c)"
    using assms(1,2) by (rule persons_denied_typed [rotated 2])
  then show ?thesis
    using assms(3) None
    by (simp add: persons.simps [of h c "Some q" None] promise_all2_def then_map_def)
next
  case (Some t)
  then show ?thesis using assms by (simp add: persons_denied_typed)
qed

text \<open>
  Claim C2, amended. On a client whose cached privileges lack \<open>read\<close> for the resource
  of a read operation, the operation rejects with a \<open>PermissionError\<close> and issues no
  request for that resource: \<open>appointments\<close>, called with a date, issues no request to
  the appointments URL (its own request for the absences is a different one);
  \<open>courses\<close>, \<open>messageFolders\<close>, and \<open>persons\<close> with a query of at least three
  characters after trimming, issue no request at all.
\<close>

theorem read_operations_need_privilege:
  assumes "m_privileges c = Some ps"
  shows "(\<not> can ps ''afspraken'' ''read'' \<and> date_range args = Some (from, to)
            \<longrightarrow> rejects_with PermissionError (fst (appointments h c args))
              \<and> list_all (\<lambda>r. r_url r \<noteq> appointments_url h c from to)
                   (issued c (snd (appointments h c args))))
    \<and> (\<not> can ps ''aanmeldingen'' ''read''
            \<longrightarrow> rejects_with PermissionError (fst (courses h c)) \<and> issued c (snd (courses h c)) = [])
    \<and> (\<not> can ps ''berichten'' ''read''
            \<longrightarrow> rejects_with PermissionError (fst (messageFolders h c))
              \<and> issued c (snd (messageFolders h c)) = [])
    \<and> (\<not> can ps ''contactpersonen'' ''read'' \<and> 3 \<le> length (trim query)
            \<longrightarrow> rejects_with PermissionError (fst (persons h c (Some query) type))
              \<and> issued c (snd (persons h c (Some query) type)) = [])"
proof -
  have 1: "rejects_with PermissionError (fst (appointments h c args))
      \<and> list_all (\<lambda>r. r_url r \<noteq> appointments_url h c from to)
           (issued c (snd (appointments h c args)))"
    if "\<not> can ps ''afspraken'' ''read''" and "date_range args = Some (from, to)"
    using urls_differ [of h c "from" to]
    by (simp add: appointments_denied [OF assms that] rejects_with_def denied_def issued_def
        absences_promise_log)
  have 2: "rejects_with PermissionError (fst (courses h c)) \<and> issued c (snd (courses h c)) = []"
    if "\<not> can ps ''aanmeldingen'' ''read''"
    using assms that
    by (simp add: courses_def read_items_denied then_map_def rejects_with_def denied_def issued_same)
  have 3: "rejects_with PermissionError (fst (messageFolders h c))
      \<and> issued c (snd (messageFolders h c)) = []"
    if "\<not> can ps ''berichten'' ''read''"
    using assms that
    by (simp add: messageFolders_def read_items_denied rejects_with_def denied_def issued_same)
  have 4: "rejects_with PermissionError (fst (persons h c (Some query) type))
      \<and> issued c (snd (persons h c (Some query) type)) = []"
    if "\<not> can ps ''contactpersonen'' ''read''" and "3 \<le> length (trim query)"
    by (simp add: persons_denied [OF assms that] rejects_with_def denied_def issued_same)
  from 1 2 3 4 show ?thesis by blast
qed

text \<open>
  Claim C2, as stated, says that every read operation rejects with a \<open>PermissionError\<close>
  when the privilege is missing. \<open>persons\<close> does not when the trimmed query is shorter
  than three characters: on a client without any privilege, the query \<open>ab\<close> for teachers
  resolves to the empty list.
\<close>

theorem persons_short_query_not_rejected:
  "m_privileges (demo_client []) = Some []
   \<and> \<not> can [] ''contactpersonen'' ''read''
   \<and> persons demo_host (demo_client []) (Some ''ab'') (Some ''teacher'')
       = (Returned (Fulfilled []), demo_client [])
   \<and> \<not> rejects_with PermissionError
         (fst (persons demo_host (demo_client []) (Some ''ab'') (Some ''teacher'')))"
proof -
  have "persons demo_host (demo_client []) (Some ''ab'') (Some ''teacher'')
       = (Returned (Fulfilled []), demo_client [])"
    by (simp add: persons.simps [of demo_host "demo_client []" "Some ''ab''" "Some ''teacher''"]
        trim_def is_space_def)
  then show ?thesis
    by (simp add: can_def demo_client_def rejects_with_def)
qed


lemma demo_range: "date_range [DateArg 100000000, DateArg 5] = Some (5, 100000000)"
  by (simp add: date_range_def)

theorem read_operations_need_privilege_witness:
  "rejects_with PermissionError
     (fst (appointments demo_host demo_absentee [DateArg 100000000, DateArg 5]))
   \<and> list_all (\<lambda>r. r_url r \<noteq> appointments_url demo_host demo_absentee 5 100000000)
        (issued demo_absentee
           (snd (appointments demo_host demo_absentee [DateArg 100000000, DateArg 5])))
   \<and> rejects_with PermissionError (fst (courses demo_host demo_absentee))
   \<and> issued demo_absentee (snd (courses demo_host demo_absentee)) = []
   \<and> rejects_with PermissionError (fst (messageFolders demo_host demo_absentee))
   \<and> issued demo_absentee (snd (messageFolders demo_host demo_absentee)) = []
   \<and> rejects_with PermissionError (fst (persons demo_host demo_absentee (Some ''abc'') None))
   \<and> issued demo_absentee (snd (persons demo_host demo_absentee (Some ''abc'') None)) = []"
proof -
  have p: "m_privileges demo_absentee = Some [(''absenties'', [''read''])]"
    by (simp add: demo_absentee_def demo_client_def)
  have n1: "\<not> can [(''absenties'', [''read''])] ''afspraken'' ''read''"
    by code_simp
  have n2: "\<not> can [(''absenties'', [''read''])] ''aanmeldingen'' ''read''"
    by code_simp
  have n3: "\<not> can [(''absenties'', [''read''])] ''berichten'' ''read''"
    by code_simp
  have n4: "\<not> can [(''absenties'', [''read''])] ''contactpersonen'' ''read''"
    by code_simp
  have q: "3 \<le> length (trim ''abc'')"
    by (simp add: trim_def is_space_def)
  from read_operations_need_privilege
         [OF p, of "[DateArg 100000000, DateArg 5]" 5 100000000 demo_host "''abc''" None]
       n1 n2 n3 n4 demo_range q
  show ?thesis by blast
qed

section \<open>Sorting and linking in appointments\<close>

lemma link_absences_info:
  "a \<in> set (link_absences absences as)
    \<Longrightarrow> a_absenceInfo a = List.find (\<lambda>i. a_id (i_appointment i) = a_id a) absences"
  by (auto simp: link_absences_def set_absenceInfo_def)

lemma find_matching:
  "List.find P xs = None \<longleftrightarrow> (\<forall>x\<in>set xs. \<not> P x)"
  "List.find P xs = Some y \<Longrightarrow> y \<in> set xs \<and> P y"
  by (auto simp: find_None_iff find_Some_iff)

lemma find_exists: "x \<in> set xs \<Longrightarrow> P x \<Longrightarrow> \<exists>y. List.find P xs = Some y"
  by (cases "List.find P xs") (auto simp: find_None_iff)

lemma date_range_ordered: "from \<le> to \<Longrightarrow> date_range [DateArg from, DateArg to] = Some (from, to)"
  by (simp add: date_range_def)

lemma promise_all2_Fulfilled:
  "promise_all2 h p q = Fulfilled r \<longleftrightarrow> (\<exists>a b. p = Fulfilled a \<and> q = Fulfilled b \<and> r = (a, b))"
  by (auto simp: promise_all2_def split: settled.splits)

text \<open>
  Claim C3. For \<open>from \<le> to\<close>, a list that \<open>appointments(from, to)\<close> resolves to is
  sorted by start time, non-decreasing. It is the sorted list of the fetched appointments,
  each with its absence set from the fetched absence records: an appointment whose
  identifier is the appointment identifier of some record carries such a record (the
  first one), and an appointment without a matching record carries none.
\<close>

theorem appointments_sorted_and_linked:
  assumes "from \<le> to"
    and "appointments h c [DateArg from, DateArg to] = (Returned (Fulfilled result), c')"
  shows "sorted (map a_start result)
    \<and> (\<exists>ps c1 as absences.
          m_privileges c = Some ps
        \<and> read_items h c ps ''afspraken'' (appointments_url h c from to) (mkAppointment h)
            = (Fulfilled as, c1)
        \<and> absences_promise h c1 ps True True from to = (Fulfilled absences, c')
        \<and> result = sort_key a_start (link_absences absences as)
        \<and> (\<forall>a\<in>set result. \<forall>i\<in>set absences. a_id (i_appointment i) = a_id a
              \<longrightarrow> (\<exists>j\<in>set absences. a_id (i_appointment j) = a_id a \<and> a_absenceInfo a = Some j))
        \<and> (\<forall>a\<in>set result. (\<forall>i\<in>set absences. a_id (i_appointment i) \<noteq> a_id a)
              \<longrightarrow> a_absenceInfo a = None))"
proof -
  let ?args = "[DateArg from, DateArg to]"
  have opts: "options_of ?args
      = \<lparr>fillPersons = None, fetchAbsences = None, ignoreAbsenceErrors = None\<rparr>"
    by (simp add: options_of_def)
  have range: "date_range ?args = Some (from, to)"
    using assms(1) by (rule date_range_ordered)
  obtain ps where ps: "m_privileges c = Some ps"
    using assms(2) range
    by (cases "m_privileges c") (auto simp: appointments_def date_urls_range)
  obtain p1 c1 where r1: "read_items h c ps ''afspraken'' (appointments_url h c from to)
      (mkAppointment h) = (p1, c1)"
    by (cases "read_items h c ps ''afspraken'' (appointments_url h c from to) (mkAppointment h)")
  obtain p2 c2 where r2: "absences_promise h c1 ps True True from to = (p2, c2)"
    by (cases "absences_promise h c1 ps True True from to")
  have steps: "appointments h c ?args =
           (case promise_all2 h p1 p2 of
              RejectedNow e \<Rightarrow> (Returned (RejectedNow e), c2)
            | RejectedLater e \<Rightarrow> (Returned (RejectedLater e), c2)
            | Fulfilled (as, absences) \<Rightarrow>
                (Returned (Fulfilled (sort_key a_start (link_absences absences as))), c2))"
    using appointments_steps [OF ps range r1, of p2 c2] r2
    by (simp add: opts default_bool_def fill_persons_def split: settled.splits)
  obtain as absences where all: "promise_all2 h p1 p2 = Fulfilled (as, absences)"
    and res: "result = sort_key a_start (link_absences absences as)" and c': "c' = c2"
    using assms(2) unfolding steps by (auto split: settled.splits)
  from all have p1: "p1 = Fulfilled as" and p2: "p2 = Fulfilled absences"
    by (simp_all add: promise_all2_Fulfilled)
  have info: "\<And>a. a \<in> set result
      \<Longrightarrow> a_absenceInfo a = List.find (\<lambda>i. a_id (i_appointment i) = a_id a) absences"
    unfolding res by (simp add: link_absences_info)
  have l1: "\<forall>a\<in>set result. \<forall>i\<in>set absences. a_id (i_appointment i) = a_id a
              \<longrightarrow> (\<exists>j\<in>set absences. a_id (i_appointment j) = a_id a \<and> a_absenceInfo a = Some j)"
  proof (intro ballI impI)
    fix a i
    assume a: "a \<in> set result" and i: "i \<in> set absences" and m: "a_id (i_appointment i) = a_id a"
    from find_exists [of i absences "\<lambda>i. a_id (i_appointment i) = a_id a", OF i m]
    obtain j where j: "List.find (\<lambda>i. a_id (i_appointment i) = a_id a) absences = Some j"
      by blast
    from find_matching(2) [OF j] info [OF a] j
    show "\<exists>j\<in>set absences. a_id (i_appointment j) = a_id a \<and> a_absenceInfo a = Some j"
      by auto
  qed
  have l2: "\<forall>a\<in>set result. (\<forall>i\<in>set absences. a_id (i_appointment i) \<noteq> a_id a)
              \<longrightarrow> a_absenceInfo a = None"
    using info by (simp add: find_matching(1))
  have s: "sorted (map a_start result)"
    unfolding res by (rule sorted_sort_key)
  from ps r1 r2 p1 p2 c' res l1 l2 s show ?thesis by blast
qed


lemma demo_appointments_value:
  "fst (appointments demo_host demo_reader [DateArg 5, DateArg 100000000])
     = Returned (Fulfilled demo_result)"
  by code_simp

theorem appointments_sorted_and_linked_witness:
  "(5::int) \<le> 100000000
   \<and> fst (appointments demo_host demo_reader [DateArg 5, DateArg 100000000])
       = Returned (Fulfilled demo_result)
   \<and> sorted (map a_start demo_result)
   \<and> (\<exists>ps c1 as absences.
          m_privileges demo_reader = Some ps
        \<and> read_items demo_host demo_reader ps ''afspraken''
             (appointments_url demo_host demo_reader 5 100000000) (mkAppointment demo_host)
            = (Fulfilled as, c1)
        \<and> absences_promise demo_host c1 ps True True 5 100000000
            = (Fulfilled absences,
               snd (appointments demo_host demo_reader [DateArg 5, DateArg 100000000]))
        \<and> demo_result = sort_key a_start (link_absences absences as)
        \<and> (\<forall>a\<in>set demo_result. \<forall>i\<in>set absences. a_id (i_appointment i) = a_id a
              \<longrightarrow> (\<exists>j\<in>set absences. a_id (i_appointment j) = a_id a \<and> a_absenceInfo a = Some j))
        \<and> (\<forall>a\<in>set demo_result. (\<forall>i\<in>set absences. a_id (i_appointment i) \<noteq> a_id a)
              \<longrightarrow> a_absenceInfo a = None))"
proof -
  have le: "(5::int) \<le> 100000000" by simp
  have run: "appointments demo_host demo_reader [DateArg 5, DateArg 100000000]
      = (Returned (Fulfilled demo_result),
         snd (appointments demo_host demo_reader [DateArg 5, DateArg 100000000]))"
    using demo_appointments_value by (simp add: prod_eq_iff)
  from appointments_sorted_and_linked [OF le run] le demo_appointments_value
  show ?thesis by blast
qed

lemma fill_appointments_info:
  "fill_appointments h c as = ((es, bs), c') \<Longrightarrow> map a_absenceInfo bs = map a_absenceInfo as"
proof (induction as arbitrary: c es bs c')
  case Nil
  then show ?case by simp
next
  case (Cons a as)
  then show ?case
    by (auto simp: set_teachers_def split: prod.splits)
qed

lemma fill_persons_info:
  assumes "fill_persons h c fillP as = (Fulfilled bs, c')"
  shows "map a_absenceInfo bs = map a_absenceInfo as"
proof (cases fillP)
  case False
  then show ?thesis using assms by (simp add: fill_persons_def)
next
  case True
  obtain es cs c1 where f: "fill_appointments h c as = ((es, cs), c1)"
    by (metis surj_pair)
  with True assms have "bs = cs"
    by (simp add: fill_persons_def split: if_splits)
  with fill_appointments_info [OF f] show ?thesis by simp
qed

lemma unlinked: "a \<in> set (sort_key a_start (link_absences [] as)) \<Longrightarrow> a_absenceInfo a = None"
  by (auto simp: link_absences_def set_absenceInfo_def)

lemma catch_empty_rejected: "rejected p \<Longrightarrow> catch_empty p = Fulfilled []"
  by (cases p) (simp_all add: catch_empty_def)

text \<open>
  Claim C6. With \<open>ignoreAbsenceErrors\<close> true (the default), when the fetch of the absences
  fails, whether at the privilege check, in the transport or in decoding, \<open>appointments\<close>
  goes on as with an empty list of absences: the failure is never the outcome of the call,
  which the fetch of the appointments alone decides. When that fetch has succeeded the
  call resolves, without \<open>fillPersons\<close>, to the sorted appointments, and every list the
  call resolves to has no absence attached to any appointment.
\<close>

theorem appointments_ignores_absence_errors:
  assumes "m_privileges c = Some ps" and "date_range args = Some (from, to)"
    and "default_bool True (fetchAbsences (options_of args))"
    and "default_bool True (ignoreAbsenceErrors (options_of args))"
    and "read_items h c ps ''afspraken'' (appointments_url h c from to) (mkAppointment h)
           = (p1, c1)"
    and "read_items h c1 ps ''Absenties'' (absences_url h c1 from to) (mkAbsenceInfo h) = (p, c2)"
    and "rejected p"
  shows "appointments h c args
           = (case p1 of
                RejectedNow e \<Rightarrow> (Returned (RejectedNow e), c2)
              | RejectedLater e \<Rightarrow> (Returned (RejectedLater e), c2)
              | Fulfilled as \<Rightarrow>
                  (case fill_persons h c2 (default_bool False (fillPersons (options_of args)))
                          (sort_key a_start (link_absences [] as)) of
                     (q, c3) \<Rightarrow> (Returned q, c3)))
    \<and> (\<forall>as. p1 = Fulfilled as \<and> \<not> default_bool False (fillPersons (options_of args))
          \<longrightarrow> appointments h c args
                = (Returned (Fulfilled (sort_key a_start (link_absences [] as))), c2))
    \<and> (\<forall>result c'. appointments h c args = (Returned (Fulfilled result), c')
          \<longrightarrow> list_all (\<lambda>a. a_absenceInfo a = None) result)"
proof -
  let ?fillP = "default_bool False (fillPersons (options_of args))"
  have ab: "absences_promise h c1 ps (default_bool True (fetchAbsences (options_of args)))
           (default_bool True (ignoreAbsenceErrors (options_of args))) from to = (Fulfilled [], c2)"
    using assms(3,4,6,7)
    by (simp add: absences_promise_def absences_promise_at_def absences_url_def
        catch_empty_rejected)
  have run: "appointments h c args
      = (case p1 of
           RejectedNow e \<Rightarrow> (Returned (RejectedNow e), c2)
         | RejectedLater e \<Rightarrow> (Returned (RejectedLater e), c2)
         | Fulfilled as \<Rightarrow>
             (case fill_persons h c2 ?fillP (sort_key a_start (link_absences [] as)) of
                (q, c3) \<Rightarrow> (Returned q, c3)))"
    by (simp add: appointments_steps [OF assms(1,2,5) ab] promise_all2_def split: settled.splits)
  have plain: "appointments h c args
      = (Returned (Fulfilled (sort_key a_start (link_absences [] as))), c2)"
    if "p1 = Fulfilled as" and "\<not> ?fillP" for as
    using that by (simp add: run fill_persons_def)
  have none: "list_all (\<lambda>a. a_absenceInfo a = None) result"
    if "appointments h c args = (Returned (Fulfilled result), c')" for result c'
  proof -
    from that obtain as where
      "fill_persons h c2 ?fillP (sort_key a_start (link_absences [] as)) = (Fulfilled result, c')"
      unfolding run by (auto split: settled.splits prod.splits)
    then have "map a_absenceInfo result
        = map a_absenceInfo (sort_key a_start (link_absences [] as))"
      by (rule fill_persons_info)
    then have "set (map a_absenceInfo result)
        = set (map a_absenceInfo (sort_key a_start (link_absences [] as)))"
      by simp
    also have "\<dots> \<subseteq> {None}"
      using unlinked [of _ as] by auto
    finally show ?thesis
      by (auto simp: list_all_iff)
  qed
  from run plain none show ?thesis by blast
qed

lemma down_appointments:
  "fst (read_items absences_down_host demo_reader
      [(''Afspraken'', [''read'']), (''absenties'', [''read''])] ''afspraken''
      (appointments_url absences_down_host demo_reader 5 100000000)
      (mkAppointment absences_down_host))
    = Fulfilled demo_fetched"
  by code_simp

lemma down_absences:
  "rejected (fst (read_items absences_down_host
      (snd (read_items absences_down_host demo_reader
              [(''Afspraken'', [''read'']), (''absenties'', [''read''])] ''afspraken''
              (appointments_url absences_down_host demo_reader 5 100000000)
              (mkAppointment absences_down_host)))
      [(''Afspraken'', [''read'']), (''absenties'', [''read''])] ''Absenties''
      (absences_url absences_down_host
         (snd (read_items absences_down_host demo_reader
              [(''Afspraken'', [''read'']), (''absenties'', [''read''])] ''afspraken''
              (appointments_url absences_down_host demo_reader 5 100000000)
              (mkAppointment absences_down_host))) 5 100000000)
      (mkAbsenceInfo absences_down_host)))"
  by code_simp

lemma demo_sorted_value: "sort_key a_start (link_absences [] demo_fetched) = demo_sorted"
  by code_simp

theorem appointments_ignores_absence_errors_witness:
  "fst (appointments absences_down_host demo_reader [DateArg 5, DateArg 100000000])
     = Returned (Fulfilled demo_sorted)
   \<and> list_all (\<lambda>a. a_absenceInfo a = None) demo_sorted"
proof -
  let ?ps = "[(''Afspraken'', [''read'']), (''absenties'', [''read''])]"
  let ?args = "[DateArg 5, DateArg 100000000]"
  let ?r1 = "read_items absences_down_host demo_reader ?ps ''afspraken''
      (appointments_url absences_down_host demo_reader 5 100000000)
      (mkAppointment absences_down_host)"
  let ?r2 = "read_items absences_down_host (snd ?r1) ?ps ''Absenties''
      (absences_url absences_down_host (snd ?r1) 5 100000000) (mkAbsenceInfo absences_down_host)"
  have 1: "m_privileges demo_reader = Some ?ps"
    by (simp add: demo_reader_def demo_client_def)
  have 2: "date_range ?args = Some (5, 100000000)"
    by (simp add: date_range_def)
  have o: "options_of ?args = \<lparr>fillPersons = None, fetchAbsences = None, ignoreAbsenceErrors = None\<rparr>"
    by (simp add: options_of_def)
  have 3: "default_bool True (fetchAbsences (options_of ?args))"
    and 4: "default_bool True (ignoreAbsenceErrors (options_of ?args))"
    and f: "\<not> default_bool False (fillPersons (options_of ?args))"
    by (simp_all add: o default_bool_def)
  have 5: "?r1 = (Fulfilled demo_fetched, snd ?r1)"
    using down_appointments by (simp add: prod_eq_iff)
  have 6: "?r2 = (fst ?r2, snd ?r2)"
    by simp
  note t = appointments_ignores_absence_errors [OF 1 2 3 4 5 6 down_absences]
  from t f have run: "appointments absences_down_host demo_reader ?args
      = (Returned (Fulfilled (sort_key a_start (link_absences [] demo_fetched))), snd ?r2)"
    by blast
  with t have "list_all (\<lambda>a. a_absenceInfo a = None)
      (sort_key a_start (link_absences [] demo_fetched))"
    by blast
  with run show ?thesis
    by (simp add: demo_sorted_value)
qed

end
